theory Spec2Isabelle
  imports Complex_Main "HOL-Library.Multiset"
begin

section \<open>Python values used by the cash-flow service\<close>

text \<open>
  The service (\<^verbatim>\<open>cashflow/cashflow_service.py\<close>, class \<^verbatim>\<open>CashFlowService\<close>) reads rows
  through SQLAlchemy, adds \<^verbatim>\<open>decimal.Decimal\<close> amounts, and returns dictionaries whose
  monetary fields are strings. The model keeps that shape: amounts are decimals with
  sign, coefficient and exponent, as Python stores them; the strings are character
  lists produced and read by the functions below; every \<^verbatim>\<open>raise\<close> is a value
  \<open>Inl e\<close>.

  Scope of the decimal model. Only finite decimals are represented. Addition and
  subtraction are exact, which is what Python computes as long as a result has at most
  28 significant digits (the default context) and its exponent stays within the
  context's range. A text or tuple that denotes a NaN or an infinity is answered with
  the marker \<open>NonFinite\<close>: it is not a Python exception, it says that the input lies
  outside the model.
\<close>

subsection \<open>Exceptions\<close>

datatype exn =
    JSONDecodeError
  | ValueError
  | TypeError
  | AttributeError
  | InvalidOperation
  | ImportError
  | OperationalError
  | NonFinite
  | Exception string exn

text \<open>
  \<open>Exception prefix e\<close> stands for \<^verbatim>\<open>Exception(f"{prefix}{str(e)}")\<close>.
  \<^verbatim>\<open>json.JSONDecodeError\<close> is a subclass of \<^verbatim>\<open>ValueError\<close>;
  \<^verbatim>\<open>decimal.InvalidOperation\<close> is an \<^verbatim>\<open>ArithmeticError\<close> and is not.
\<close>

fun is_ValueError :: "exn \<Rightarrow> bool" where
  "is_ValueError JSONDecodeError = True"
| "is_ValueError ValueError = True"
| "is_ValueError _ = False"

definition bind_exn :: "exn + 'a \<Rightarrow> ('a \<Rightarrow> exn + 'b) \<Rightarrow> exn + 'b" where
  "bind_exn m f = (case m of Inl e \<Rightarrow> Inl e | Inr v \<Rightarrow> f v)"

text \<open>\<^verbatim>\<open>try: ... except Exception as e: raise Exception(f"{prefix}{str(e)}")\<close>\<close>

definition reraise :: "string \<Rightarrow> exn + 'a \<Rightarrow> exn + 'a" where
  "reraise prefix m = (case m of Inl e \<Rightarrow> Inl (Exception prefix e) | Inr v \<Rightarrow> Inr v)"

subsection \<open>Decimal digits and integers as text\<close>

definition digit_char :: "nat \<Rightarrow> char" where
  "digit_char d = ''0123456789'' ! (d mod 10)"

definition is_digit :: "char \<Rightarrow> bool" where
  "is_digit c = (c \<in> set ''0123456789'')"

text \<open>The value of a digit is its place in \<open>''0123456789''\<close>; any other character counts 0.\<close>

definition digit_val :: "char \<Rightarrow> nat" where
  "digit_val c = length (takeWhile (\<lambda>d. d \<noteq> c) ''0123456789'') mod 10"

text \<open>\<^verbatim>\<open>str(n)\<close> for a natural number, and for an integer.\<close>

function str_nat :: "nat \<Rightarrow> string" where
  "str_nat n = (if n < 10 then [digit_char n] else str_nat (n div 10) @ [digit_char (n mod 10)])"
  by pat_completeness auto
termination
proof (relation "measure id")
  show "wf (measure id)" by simp
next
  fix n :: nat
  assume "\<not> n < 10"
  then have "n div 10 < n" by (simp add: div_less_dividend)
  then show "(n div 10, n) \<in> measure id" by simp
qed

declare str_nat.simps [simp del]

definition str_int :: "int \<Rightarrow> string" where
  "str_int i = (if i < 0 then ''-'' @ str_nat (nat (- i)) else str_nat (nat i))"

text \<open>\<^verbatim>\<open>int(s)\<close> for a text of decimal digits.\<close>

definition nat_of_digits :: "string \<Rightarrow> nat" where
  "nat_of_digits s = foldl (\<lambda>a c. 10 * a + digit_val c) 0 s"

subsection \<open>Decimal\<close>

text \<open>
  A finite \<^verbatim>\<open>Decimal\<close> is the triple of \<^verbatim>\<open>as_tuple()\<close>: the sign, the coefficient
  and the exponent; \<open>Decimal s c e\<close> denotes \<open>(-1)\<^sup>s \<cdot> c \<cdot> 10\<^sup>e\<close>. Two decimals of equal
  value and different exponents (\<^verbatim>\<open>5\<close>, \<^verbatim>\<open>5.00\<close>) are different values, as in Python.
\<close>

datatype decimal = Decimal (dsign: bool) (dcoeff: nat) (dexp: int)

definition dec_val :: "decimal \<Rightarrow> rat" where
  "dec_val d = (if dsign d then - 1 else 1) * of_nat (dcoeff d) * power_int 10 (dexp d)"

text \<open>\<^verbatim>\<open>Decimal('0')\<close>, the start value of every running total.\<close>

definition dec_zero :: decimal where
  "dec_zero = Decimal False 0 0"

text \<open>The signed coefficient of \<open>d\<close> once its exponent is lowered to \<open>e\<close>.\<close>

definition dec_signed :: "decimal \<Rightarrow> int \<Rightarrow> int" where
  "dec_signed d e = (if dsign d then - 1 else 1) * int (dcoeff d) * 10 ^ nat (dexp d - e)"

text \<open>
  \<^verbatim>\<open>Decimal.__add__\<close>: the operands are aligned at the smaller exponent and their
  coefficients added; a zero sum is negative only when both operands are negative.
  \<^verbatim>\<open>Decimal.__sub__\<close> adds the negated operand.
\<close>

definition dec_add :: "decimal \<Rightarrow> decimal \<Rightarrow> decimal" where
  "dec_add a b =
     (let e = min (dexp a) (dexp b);
          v = dec_signed a e + dec_signed b e
      in Decimal (if v = 0 then dsign a \<and> dsign b else v < 0) (nat \<bar>v\<bar>) e)"

definition dec_neg :: "decimal \<Rightarrow> decimal" where
  "dec_neg d = Decimal (\<not> dsign d) (dcoeff d) (dexp d)"

definition dec_sub :: "decimal \<Rightarrow> decimal \<Rightarrow> decimal" where
  "dec_sub a b = dec_add a (dec_neg b)"

text \<open>The comparisons \<^verbatim>\<open>d > 0\<close>, \<^verbatim>\<open>d < 0\<close> and \<^verbatim>\<open>d == 0\<close>.\<close>

definition dec_gt0 :: "decimal \<Rightarrow> bool" where
  "dec_gt0 d = (\<not> dsign d \<and> dcoeff d \<noteq> 0)"

definition dec_lt0 :: "decimal \<Rightarrow> bool" where
  "dec_lt0 d = (dsign d \<and> dcoeff d \<noteq> 0)"

definition dec_eq0 :: "decimal \<Rightarrow> bool" where
  "dec_eq0 d = (dcoeff d = 0)"

text \<open>
  \<^verbatim>\<open>Decimal._rescale(exp, ROUND_HALF_EVEN)\<close>, the rounding behind \<^verbatim>\<open>format(d, '.2f')\<close>:
  a zero keeps its sign, a larger exponent is padded with zeros, a smaller one is
  rounded half to even. Python decides the rounding on the digit string; the quotient
  and remainder below are the same decision.
\<close>

definition rescale :: "decimal \<Rightarrow> int \<Rightarrow> decimal" where
  "rescale d e =
     (if dcoeff d = 0 then Decimal (dsign d) 0 e
      else if e \<le> dexp d then Decimal (dsign d) (dcoeff d * 10 ^ nat (dexp d - e)) e
      else let m = 10 ^ nat (e - dexp d); q = dcoeff d div m; r = dcoeff d mod m
           in Decimal (dsign d) (if m < 2 * r \<or> (2 * r = m \<and> odd q) then q + 1 else q) e)"

text \<open>\<^verbatim>\<open>Decimal.__str__\<close>: plain notation, or scientific notation with one leading digit.\<close>

definition dec_str :: "decimal \<Rightarrow> string" where
  "dec_str d =
     (let ds = str_nat (dcoeff d);
          n = int (length ds);
          leftdigits = dexp d + n;
          dotplace = (if dexp d \<le> 0 \<and> - 6 < leftdigits then leftdigits else 1);
          intpart = (if dotplace \<le> 0 then ''0''
                     else if n \<le> dotplace then ds @ replicate (nat (dotplace - n)) CHR ''0''
                     else take (nat dotplace) ds);
          fracpart = (if dotplace \<le> 0 then ''.'' @ replicate (nat (- dotplace)) CHR ''0'' @ ds
                      else if n \<le> dotplace then []
                      else ''.'' @ drop (nat dotplace) ds);
          ex = (if leftdigits = dotplace then []
                else ''E'' @ (if leftdigits - dotplace < 0 then ''-'' else ''+'')
                       @ str_nat (nat \<bar>leftdigits - dotplace\<bar>))
      in (if dsign d then ''-'' else []) @ intpart @ fracpart @ ex)"

text \<open>
  \<^verbatim>\<open>Decimal.__format__\<close> with the specification \<^verbatim>\<open>.<precision>f\<close>: rescale, then
  place the point; a negative sign is kept, also on a zero.
\<close>

definition format_f :: "nat \<Rightarrow> decimal \<Rightarrow> string" where
  "format_f precision d0 =
     (let d = rescale d0 (- int precision);
          ds = str_nat (dcoeff d);
          n = int (length ds);
          dotplace = dexp d + n;
          intpart = (if dotplace < 0 then ''0''
                     else if n < dotplace then ds @ replicate (nat (dotplace - n)) CHR ''0''
                     else if take (nat dotplace) ds = [] then ''0'' else take (nat dotplace) ds);
          fracpart = (if dotplace < 0 then replicate (nat (- dotplace)) CHR ''0'' @ ds
                      else if n < dotplace then []
                      else drop (nat dotplace) ds)
      in (if dsign d then ''-'' else []) @ intpart
           @ (if fracpart = [] then [] else ''.'' @ fracpart))"

text \<open>
  \<^verbatim>\<open>Decimal(s)\<close> for a text \<open>s\<close>: surrounding white space and all underscores are
  dropped; then come an optional sign, digits with an optional fractional part (at
  least one digit in all), and an optional exponent.
\<close>

definition is_space :: "char \<Rightarrow> bool" where
  "is_space c = (c \<in> set [CHR 0x20, CHR 0x09, CHR 0x0A, CHR 0x0B, CHR 0x0C, CHR 0x0D,
                          CHR 0x1C, CHR 0x1D, CHR 0x1E, CHR 0x1F])"

definition strip :: "string \<Rightarrow> string" where
  "strip s = rev (dropWhile is_space (rev (dropWhile is_space s)))"

definition split_sign :: "string \<Rightarrow> bool \<times> string" where
  "split_sign s =
     (case s of
        [] \<Rightarrow> (False, [])
      | c # r \<Rightarrow> if c = CHR ''-'' then (True, r) else if c = CHR ''+'' then (False, r)
                 else (False, s))"

definition parse_exp :: "string \<Rightarrow> int option" where
  "parse_exp s =
     (if s = [] then Some 0
      else if hd s = CHR ''E'' \<or> hd s = CHR ''e'' then
        (let (neg, ds) = split_sign (tl s)
         in if ds \<noteq> [] \<and> list_all is_digit ds
            then Some (if neg then - int (nat_of_digits ds) else int (nat_of_digits ds))
            else None)
      else None)"

definition lower :: "char \<Rightarrow> char" where
  "lower c =
     (if c = CHR ''I'' then CHR ''i'' else if c = CHR ''N'' then CHR ''n''
      else if c = CHR ''F'' then CHR ''f'' else if c = CHR ''T'' then CHR ''t''
      else if c = CHR ''Y'' then CHR ''y'' else if c = CHR ''A'' then CHR ''a''
      else if c = CHR ''S'' then CHR ''s'' else c)"

text \<open>The texts Python reads as an infinity or a NaN (after the sign, in any case).\<close>

definition is_special_literal :: "string \<Rightarrow> bool" where
  "is_special_literal s =
     (let l = map lower s
      in l = ''inf'' \<or> l = ''infinity''
         \<or> (take 3 l = ''nan'' \<and> list_all is_digit (drop 3 l))
         \<or> (take 4 l = ''snan'' \<and> list_all is_digit (drop 4 l)))"

definition not_a_number :: "string \<Rightarrow> exn" where
  "not_a_number s = (if is_special_literal s then NonFinite else InvalidOperation)"

definition Decimal_of_str :: "string \<Rightarrow> exn + decimal" where
  "Decimal_of_str s =
     (let (neg, s2) = split_sign (filter (\<lambda>c. c \<noteq> CHR ''_'') (strip s));
          intpart = takeWhile is_digit s2;
          r1 = dropWhile is_digit s2;
          dot = (r1 \<noteq> [] \<and> hd r1 = CHR ''.'');
          fracpart = (if dot then takeWhile is_digit (tl r1) else []);
          r2 = (if dot then dropWhile is_digit (tl r1) else r1)
      in if intpart = [] \<and> fracpart = [] then Inl (not_a_number s2)
         else case parse_exp r2 of
                None \<Rightarrow> Inl (not_a_number s2)
              | Some ex \<Rightarrow>
                  Inr (Decimal neg (nat_of_digits (intpart @ fracpart))
                         (ex - int (length fracpart))))"

text \<open>\<^verbatim>\<open>Decimal(x or 0)\<close> for a nullable numeric column: \<^verbatim>\<open>None\<close> and a zero give \<^verbatim>\<open>Decimal(0)\<close>.\<close>

definition Decimal_or_0 :: "decimal option \<Rightarrow> decimal" where
  "Decimal_or_0 x =
     (case x of None \<Rightarrow> Decimal False 0 0
      | Some d \<Rightarrow> if dcoeff d = 0 then Decimal False 0 0 else d)"

subsection \<open>\<open>format_decimal\<close>\<close>

text \<open>
  \<^verbatim>\<open>def format_decimal(value): return f"{Decimal(str(value)):.2f}"\<close>
  The service calls it on a \<^verbatim>\<open>Decimal\<close> and, in the summary, on the text of a total.
\<close>

datatype pyval = PDec decimal | PStr string

definition py_str :: "pyval \<Rightarrow> string" where
  "py_str v = (case v of PDec d \<Rightarrow> dec_str d | PStr s \<Rightarrow> s)"

definition format_decimal :: "pyval \<Rightarrow> exn + string" where
  "format_decimal v = bind_exn (Decimal_of_str (py_str v)) (\<lambda>d. Inr (format_f 2 d))"

subsection \<open>Decoded JSON\<close>

text \<open>
  \<^verbatim>\<open>json.loads\<close> belongs to Python's library; the service is given its behaviour as the
  parameter \<open>json_loads\<close>, a function from the text of a note to the decoded value or
  the exception raised. A JSON number with a fraction or an exponent decodes to a
  float; \<open>JFloat d\<close> carries the float's exact value \<open>d\<close>, which is what
  \<^verbatim>\<open>Decimal(float)\<close> returns. \<open>JDict\<close> lists the items of a \<^verbatim>\<open>dict\<close>.
\<close>

datatype json =
    JNull
  | JBool bool
  | JInt int
  | JFloat decimal
  | JStr string
  | JList "json list"
  | JDict "(string \<times> json) list"

text \<open>\<^verbatim>\<open>obj.get(key, default)\<close>: only a \<^verbatim>\<open>dict\<close> has the method.\<close>

fun py_get :: "json \<Rightarrow> string \<Rightarrow> json \<Rightarrow> exn + json" where
  "py_get (JDict kv) k dflt = Inr (case map_of kv k of None \<Rightarrow> dflt | Some v \<Rightarrow> v)"
| "py_get _ k dflt = Inl AttributeError"

text \<open>An \<^verbatim>\<open>int\<close> object (\<^verbatim>\<open>bool\<close> is a subclass of \<^verbatim>\<open>int\<close>).\<close>

fun json_int :: "json \<Rightarrow> int option" where
  "json_int (JInt i) = Some i"
| "json_int (JBool b) = Some (if b then 1 else 0)"
| "json_int _ = None"

fun coefficient_of_digits :: "json list \<Rightarrow> nat \<Rightarrow> nat option" where
  "coefficient_of_digits [] acc = Some acc"
| "coefficient_of_digits (d # ds) acc =
     (case json_int d of
        None \<Rightarrow> None
      | Some i \<Rightarrow> if 0 \<le> i \<and> i \<le> 9 then coefficient_of_digits ds (10 * acc + nat i)
                  else None)"

text \<open>\<^verbatim>\<open>Decimal([sign, [digit, ...], exponent])\<close>, the constructor on a sequence.\<close>

definition Decimal_of_sequence :: "json list \<Rightarrow> exn + decimal" where
  "Decimal_of_sequence v =
     (case v of
        [sg, dg, ex] \<Rightarrow>
          (case json_int sg of
             None \<Rightarrow> Inl ValueError
           | Some s \<Rightarrow>
               if s \<noteq> 0 \<and> s \<noteq> 1 then Inl ValueError
               else (case ex of
                       JStr t \<Rightarrow> if t \<in> set [''F'', ''n'', ''N''] then Inl NonFinite
                                 else Inl ValueError
                     | _ \<Rightarrow>
                       (case json_int ex of
                          None \<Rightarrow> Inl ValueError
                        | Some e \<Rightarrow>
                            (case dg of
                               JList ds \<Rightarrow>
                                 (case coefficient_of_digits ds 0 of
                                    None \<Rightarrow> Inl ValueError
                                  | Some c \<Rightarrow> Inr (Decimal (s = 1) c e))
                             | _ \<Rightarrow> Inl ValueError))))
      | _ \<Rightarrow> Inl ValueError)"

text \<open>\<^verbatim>\<open>Decimal(v)\<close> for a decoded JSON value \<open>v\<close>.\<close>

fun Decimal_of_json :: "json \<Rightarrow> exn + decimal" where
  "Decimal_of_json (JStr s) = Decimal_of_str s"
| "Decimal_of_json (JInt i) = Inr (Decimal (i < 0) (nat \<bar>i\<bar>) 0)"
| "Decimal_of_json (JBool b) = Inr (Decimal False (if b then 1 else 0) 0)"
| "Decimal_of_json (JFloat d) = Inr d"
| "Decimal_of_json (JList v) = Decimal_of_sequence v"
| "Decimal_of_json JNull = Inl TypeError"
| "Decimal_of_json (JDict kv) = Inl TypeError"

text \<open>Truth value of a decoded JSON value (\<^verbatim>\<open>if products_info:\<close>).\<close>

fun truthy :: "json \<Rightarrow> bool" where
  "truthy JNull = False"
| "truthy (JBool b) = b"
| "truthy (JInt i) = (i \<noteq> 0)"
| "truthy (JFloat d) = (dcoeff d \<noteq> 0)"
| "truthy (JStr s) = (s \<noteq> [])"
| "truthy (JList xs) = (xs \<noteq> [])"
| "truthy (JDict kv) = (kv \<noteq> [])"

section \<open>The tables\<close>

text \<open>
  The model classes (\<^verbatim>\<open>Payment\<close>, \<^verbatim>\<open>ProductReturn\<close>, ...) are declared outside the
  files at hand; the records below hold the columns the service reads, named after the
  attributes with a prefix per table. A numeric column is a nullable decimal. A
  \<^verbatim>\<open>datetime\<close> is a point on the time line, an integer; the dictionaries returned keep
  that value where Python stores its \<^verbatim>\<open>isoformat()\<close> text.
\<close>

type_synonym datetime = int

record customer =
  c_id :: int
  c_contact_person :: string
  c_business_name :: string

record supplier =
  s_id :: int
  s_contact_person :: string
  s_name :: string

record product =
  p_id :: int
  p_product_name :: string

record payment =
  pay_id :: int
  pay_invoice_id :: int
  pay_customer_id :: int
  pay_amount_paid :: "decimal option"
  pay_payment_method :: string
  pay_payment_status :: string
  pay_payment_date :: datetime
  pay_transaction_reference :: string

record product_return =
  pr_id :: int
  pr_return_number :: string
  pr_customer_id :: int
  pr_product_id :: int
  pr_original_invoice_id :: int
  pr_return_type :: string
  pr_refund_amount :: "decimal option"
  pr_exchange_price_difference :: "decimal option"
  pr_status :: string
  pr_reason :: string
  pr_quantity_returned :: int
  pr_exchange_product_id :: "int option"
  pr_return_date :: datetime

record stock_transaction =
  st_id :: int
  st_transaction_type :: string
  st_supplier_id :: int
  st_product_id :: int
  st_quantity :: int
  st_transaction_date :: datetime
  st_reference_number :: string
  st_notes :: "string option"

record damaged_product =
  dp_id :: int
  dp_product_id :: int

record supplier_return =
  sr_id :: int
  sr_return_number :: string
  sr_supplier_id :: int
  sr_damaged_product_id :: int
  sr_refund_amount :: "decimal option"
  sr_return_type :: string
  sr_status :: string
  sr_quantity_returned :: int
  sr_return_date :: datetime

text \<open>
  The state of the database. The supplier-returns table belongs to an optional part
  of the application: \<open>supplier_returns\<close> is \<open>Inl e\<close> when importing
  \<^verbatim>\<open>damage.supplier_return\<close> or querying the table raises \<open>e\<close>.
\<close>

record database =
  payments :: "payment list"
  customers :: "customer list"
  products :: "product list"
  product_returns :: "product_return list"
  stock_transactions :: "stock_transaction list"
  suppliers :: "supplier list"
  damaged_products :: "damaged_product list"
  supplier_returns :: "exn + supplier_return list"

subsection \<open>Queries\<close>

text \<open>
  An inner join, SQL's comparisons with zero on a nullable column (a \<^verbatim>\<open>NULL\<close>
  satisfies none), \<^verbatim>\<open>ORDER BY ... DESC\<close> and the lookup by primary key
  (\<^verbatim>\<open>Model.query.get\<close>). SQL leaves the order of rows with equal keys open; the model
  keeps them in table order.
\<close>

definition join :: "'a list \<Rightarrow> 'b list \<Rightarrow> ('a \<Rightarrow> 'b \<Rightarrow> bool) \<Rightarrow> ('a \<times> 'b) list" where
  "join xs ys on = concat (map (\<lambda>x. map (\<lambda>y. (x, y)) (filter (on x) ys)) xs)"

definition sql_gt0 :: "decimal option \<Rightarrow> bool" where
  "sql_gt0 x = (case x of None \<Rightarrow> False | Some d \<Rightarrow> dec_gt0 d)"

definition sql_eq0 :: "decimal option \<Rightarrow> bool" where
  "sql_eq0 x = (case x of None \<Rightarrow> False | Some d \<Rightarrow> dec_eq0 d)"

definition order_by_desc :: "('a \<Rightarrow> datetime) \<Rightarrow> 'a list \<Rightarrow> 'a list" where
  "order_by_desc key xs = sort_key (\<lambda>x. - key x) xs"

definition query_get :: "('a \<Rightarrow> int) \<Rightarrow> 'a list \<Rightarrow> int \<Rightarrow> 'a option" where
  "query_get pk rows i = find (\<lambda>r. pk r = i) rows"

text \<open>The relationship \<^verbatim>\<open>ProductReturn.exchange_product\<close>.\<close>

definition exchange_product :: "database \<Rightarrow> product_return \<Rightarrow> product option" where
  "exchange_product db r =
     (case pr_exchange_product_id r of
        None \<Rightarrow> None
      | Some i \<Rightarrow> query_get p_id (products db) i)"

section \<open>The cash-flow service\<close>

subsection \<open>\<open>get_customer_payments\<close>\<close>

datatype payment_ident = IdInt int | IdStr string

record customer_payment_item =
  cp_payment_id :: payment_ident
  cp_invoice_id :: int
  cp_customer_id :: int
  cp_customer_name :: string
  cp_business_name :: string
  cp_amount_paid :: string
  cp_payment_method :: string
  cp_payment_date :: datetime
  cp_transaction_reference :: string
  cp_payment_type :: string
  cp_status :: string
  cp_adjustment_details :: "string option"

record customer_payments_result =
  customer_payments :: "customer_payment_item list"
  cp_total_received :: string
  cp_count :: nat

text \<open>The query of lines 18 to 23.\<close>

definition payments_query :: "database \<Rightarrow> (payment \<times> customer) list" where
  "payments_query db =
     order_by_desc (\<lambda>(p, c). pay_payment_date p)
       (filter (\<lambda>(p, c). pay_payment_status p \<in> set [''Successful'', ''Partially Paid'']
                        \<and> sql_gt0 (pay_amount_paid p))
          (join (payments db) (customers db) (\<lambda>p c. pay_customer_id p = c_id c)))"

text \<open>The query of lines 26 to 33: exchanges where the customer pays the difference.\<close>

definition adjustments_query :: "database \<Rightarrow> (product_return \<times> customer \<times> product) list" where
  "adjustments_query db =
     order_by_desc (\<lambda>(r, c, p). pr_return_date r)
       (filter (\<lambda>(r, c, p). pr_return_type r = ''exchange''
                           \<and> sql_gt0 (pr_exchange_price_difference r)
                           \<and> sql_eq0 (pr_refund_amount r))
          (map (\<lambda>((r, c), p). (r, c, p))
             (join (join (product_returns db) (customers db)
                      (\<lambda>r c. pr_customer_id r = c_id c))
                (products db) (\<lambda>(r, c) p. pr_product_id r = p_id p))))"

text \<open>The dictionaries appended in the two loops (lines 43 to 55 and 62 to 75).\<close>

definition regular_payment_item ::
  "payment \<Rightarrow> customer \<Rightarrow> string \<Rightarrow> customer_payment_item" where
  "regular_payment_item payment customer amount_text =
     \<lparr> cp_payment_id = IdInt (pay_id payment),
       cp_invoice_id = pay_invoice_id payment,
       cp_customer_id = c_id customer,
       cp_customer_name = c_contact_person customer,
       cp_business_name = c_business_name customer,
       cp_amount_paid = amount_text,
       cp_payment_method = pay_payment_method payment,
       cp_payment_date = pay_payment_date payment,
       cp_transaction_reference = pay_transaction_reference payment,
       cp_payment_type = ''regular_payment'',
       cp_status = pay_payment_status payment,
       cp_adjustment_details = None \<rparr>"

definition adjustment_payment_item ::
  "database \<Rightarrow> product_return \<Rightarrow> customer \<Rightarrow> product \<Rightarrow> string \<Rightarrow> customer_payment_item" where
  "adjustment_payment_item db adjustment customer product amount_text =
     \<lparr> cp_payment_id = IdStr (''ADJ-'' @ str_int (pr_id adjustment)),
       cp_invoice_id = pr_original_invoice_id adjustment,
       cp_customer_id = c_id customer,
       cp_customer_name = c_contact_person customer,
       cp_business_name = c_business_name customer,
       cp_amount_paid = amount_text,
       cp_payment_method = ''adjustment'',
       cp_payment_date = pr_return_date adjustment,
       cp_transaction_reference = pr_return_number adjustment,
       cp_payment_type = ''adjustment_payment'',
       cp_status = ''Completed'',
       cp_adjustment_details =
         Some (''Customer pays extra for exchange: '' @ p_product_name product @ '' -> ''
               @ (case exchange_product db adjustment of
                    Some e \<Rightarrow> p_product_name e
                  | None \<Rightarrow> ''N/A'')) \<rparr>"

text \<open>The two loops; \<open>items\<close> is the list built so far, \<open>running_total\<close> the total so far.\<close>

fun add_regular_payments ::
  "(payment \<times> customer) list \<Rightarrow> customer_payment_item list \<times> decimal
   \<Rightarrow> exn + customer_payment_item list \<times> decimal" where
  "add_regular_payments [] acc = Inr acc"
| "add_regular_payments ((payment, customer) # rest) (items, running_total) =
     (let amount = Decimal_or_0 (pay_amount_paid payment);
          running_total' = dec_add running_total amount
      in bind_exn (format_decimal (PDec amount)) (\<lambda>amount_text.
           add_regular_payments rest
             (items @ [regular_payment_item payment customer amount_text], running_total')))"

fun add_adjustment_payments ::
  "database \<Rightarrow> (product_return \<times> customer \<times> product) list
   \<Rightarrow> customer_payment_item list \<times> decimal
   \<Rightarrow> exn + customer_payment_item list \<times> decimal" where
  "add_adjustment_payments db [] acc = Inr acc"
| "add_adjustment_payments db ((adjustment, customer, product) # rest) (items, running_total) =
     (let amount = Decimal_or_0 (pr_exchange_price_difference adjustment);
          running_total' = dec_add running_total amount
      in bind_exn (format_decimal (PDec amount)) (\<lambda>amount_text.
           add_adjustment_payments db rest
             (items @ [adjustment_payment_item db adjustment customer product amount_text],
              running_total')))"

definition get_customer_payments :: "database \<Rightarrow> exn + customer_payments_result" where
  "get_customer_payments db =
     reraise ''Error fetching customer payments: ''
       (bind_exn (add_regular_payments (payments_query db) ([], dec_zero)) (\<lambda>acc1.
        bind_exn (add_adjustment_payments db (adjustments_query db) acc1) (\<lambda>(items, running_total).
        bind_exn (format_decimal (PDec running_total)) (\<lambda>total_text.
          Inr \<lparr> customer_payments = items,
                cp_total_received = total_text,
                cp_count = length items \<rparr>))))"

subsection \<open>\<open>get_customer_refunds\<close>\<close>

record customer_refund_item =
  cr_return_id :: int
  cr_return_number :: string
  cr_customer_id :: int
  cr_customer_name :: string
  cr_business_name :: string
  cr_product_name :: string
  cr_refund_amount :: string
  cr_refund_type :: string
  cr_reason :: string
  cr_return_date :: datetime
  cr_quantity_returned :: int
  cr_exchange_product :: "string option"

record customer_refunds_result =
  customer_refunds :: "customer_refund_item list"
  cr_total_refunded :: string
  cr_count :: nat

text \<open>The query of lines 90 to 96.\<close>

definition refunds_query :: "database \<Rightarrow> (product_return \<times> customer \<times> product) list" where
  "refunds_query db =
     order_by_desc (\<lambda>(r, c, p). pr_return_date r)
       (filter (\<lambda>(r, c, p). sql_gt0 (pr_refund_amount r)
                           \<and> pr_status r \<in> set [''Pending'', ''Processed'', ''Completed''])
          (map (\<lambda>((r, c), p). (r, c, p))
             (join (join (product_returns db) (customers db)
                      (\<lambda>r c. pr_customer_id r = c_id c))
                (products db) (\<lambda>(r, c) p. pr_product_id r = p_id p))))"

definition refund_item ::
  "database \<Rightarrow> product_return \<Rightarrow> customer \<Rightarrow> product \<Rightarrow> string \<Rightarrow> customer_refund_item" where
  "refund_item db refund customer product amount_text =
     (let refund_type = (if pr_return_type refund = ''exchange'' then ''adjustment_refund''
                         else pr_return_type refund);
          reason = (if pr_return_type refund = ''exchange''
                    then ''Adjustment - We pay customer extra amount for product exchange''
                    else pr_reason refund)
      in \<lparr> cr_return_id = pr_id refund,
            cr_return_number = pr_return_number refund,
            cr_customer_id = c_id customer,
            cr_customer_name = c_contact_person customer,
            cr_business_name = c_business_name customer,
            cr_product_name = p_product_name product,
            cr_refund_amount = amount_text,
            cr_refund_type = refund_type,
            cr_reason = reason,
            cr_return_date = pr_return_date refund,
            cr_quantity_returned = pr_quantity_returned refund,
            cr_exchange_product = map_option p_product_name (exchange_product db refund) \<rparr>)"

fun add_refunds ::
  "database \<Rightarrow> (product_return \<times> customer \<times> product) list
   \<Rightarrow> customer_refund_item list \<times> decimal
   \<Rightarrow> exn + customer_refund_item list \<times> decimal" where
  "add_refunds db [] acc = Inr acc"
| "add_refunds db ((refund, customer, product) # rest) (items, running_total) =
     (let amount = Decimal_or_0 (pr_refund_amount refund);
          running_total' = dec_add running_total amount
      in bind_exn (format_decimal (PDec amount)) (\<lambda>amount_text.
           add_refunds db rest
             (items @ [refund_item db refund customer product amount_text], running_total')))"

definition get_customer_refunds :: "database \<Rightarrow> exn + customer_refunds_result" where
  "get_customer_refunds db =
     reraise ''Error fetching customer refunds: ''
       (bind_exn (add_refunds db (refunds_query db) ([], dec_zero)) (\<lambda>(items, running_total).
        bind_exn (format_decimal (PDec running_total)) (\<lambda>total_text.
          Inr \<lparr> customer_refunds = items,
                cr_total_refunded = total_text,
                cr_count = length items \<rparr>)))"

subsection \<open>\<open>get_supplier_payments\<close>\<close>

record supplier_payment_item =
  sp_transaction_id :: int
  sp_supplier_id :: int
  sp_supplier_name :: string
  sp_business_name :: string
  sp_products :: "json list"
  sp_quantity :: int
  sp_amount_paid :: string
  sp_payment_method :: json
  sp_payment_status :: json
  sp_transaction_date :: datetime
  sp_reference_number :: string
  sp_transaction_reference :: json

record supplier_payments_result =
  supplier_payments :: "supplier_payment_item list"
  sp_total_paid :: string
  sp_count :: nat

text \<open>The query of lines 142 to 146.\<close>

definition purchases_query :: "database \<Rightarrow> (stock_transaction \<times> supplier) list" where
  "purchases_query db =
     order_by_desc (\<lambda>(t, s). st_transaction_date t)
       (filter (\<lambda>(t, s). st_transaction_type t = ''Purchase'')
          (join (stock_transactions db) (suppliers db) (\<lambda>t s. st_supplier_id t = s_id s)))"

text \<open>
  What lines 153 to 168 leave in \<^verbatim>\<open>payment_amount\<close>, \<^verbatim>\<open>payment_method\<close>,
  \<^verbatim>\<open>payment_status\<close>, \<^verbatim>\<open>transaction_reference\<close> and \<^verbatim>\<open>products_info\<close>.
\<close>

record payment_info =
  payment_amount :: decimal
  payment_method :: json
  payment_status :: json
  transaction_reference :: json
  products_info :: json

definition no_payment_info :: payment_info where
  "no_payment_info =
     \<lparr> payment_amount = Decimal False 0 0, payment_method = JNull, payment_status = JNull,
       transaction_reference = JNull, products_info = JList [] \<rparr>"

text \<open>The body of the inner \<^verbatim>\<open>try\<close> (lines 161 to 166).\<close>

definition read_payment_info :: "(string \<Rightarrow> exn + json) \<Rightarrow> string \<Rightarrow> exn + payment_info" where
  "read_payment_info json_loads notes =
     bind_exn (json_loads notes) (\<lambda>info.
     bind_exn (py_get info ''payment_amount'' (JStr ''0'')) (\<lambda>amount_value.
     bind_exn (Decimal_of_json amount_value) (\<lambda>amount.
     bind_exn (py_get info ''payment_method'' JNull) (\<lambda>method.
     bind_exn (py_get info ''payment_status'' JNull) (\<lambda>status.
     bind_exn (py_get info ''transaction_reference'' JNull) (\<lambda>reference.
     bind_exn (py_get info ''products'' (JList [])) (\<lambda>products_value.
       Inr \<lparr> payment_amount = amount, payment_method = method, payment_status = status,
             transaction_reference = reference, products_info = products_value \<rparr>)))))))"

text \<open>
  Lines 153 to 168. \<^verbatim>\<open>except (json.JSONDecodeError, ValueError): pass\<close> keeps the
  initial values: the first statement that can raise one of the two is the one that
  assigns \<^verbatim>\<open>payment_amount\<close>, and none after it can. Any other exception leaves the
  inner \<^verbatim>\<open>try\<close>.
\<close>

definition extract_payment_info ::
  "(string \<Rightarrow> exn + json) \<Rightarrow> string option \<Rightarrow> exn + payment_info" where
  "extract_payment_info json_loads notes =
     (case notes of
        None \<Rightarrow> Inr no_payment_info
      | Some text \<Rightarrow>
          if text = [] then Inr no_payment_info
          else (case read_payment_info json_loads text of
                  Inr info \<Rightarrow> Inr info
                | Inl e \<Rightarrow> if is_ValueError e then Inr no_payment_info else Inl e))"

text \<open>\<^verbatim>\<open>[p.get('name', '') for p in products_info]\<close>\<close>

fun names_of :: "json list \<Rightarrow> exn + json list" where
  "names_of [] = Inr []"
| "names_of (p # ps) =
     bind_exn (py_get p ''name'' (JStr [])) (\<lambda>n.
     bind_exn (names_of ps) (\<lambda>ns. Inr (n # ns)))"

text \<open>Lines 175 to 181. Iterating a \<^verbatim>\<open>dict\<close> or a text yields texts, which have no \<^verbatim>\<open>get\<close>.\<close>

definition product_names :: "database \<Rightarrow> stock_transaction \<Rightarrow> json \<Rightarrow> exn + json list" where
  "product_names db transaction info =
     (if truthy info then
        (case info of
           JList ps \<Rightarrow> names_of ps
         | JDict kv \<Rightarrow> Inl AttributeError
         | JStr s \<Rightarrow> Inl AttributeError
         | _ \<Rightarrow> Inl TypeError)
      else (case query_get p_id (products db) (st_product_id transaction) of
              Some product \<Rightarrow> Inr [JStr (p_product_name product)]
            | None \<Rightarrow> Inr []))"

definition supplier_payment_item ::
  "stock_transaction \<Rightarrow> supplier \<Rightarrow> payment_info \<Rightarrow> json list \<Rightarrow> supplier_payment_item" where
  "supplier_payment_item transaction supplier info names =
     \<lparr> sp_transaction_id = st_id transaction,
       sp_supplier_id = s_id supplier,
       sp_supplier_name = s_contact_person supplier,
       sp_business_name = s_name supplier,
       sp_products = names,
       sp_quantity = st_quantity transaction,
       sp_amount_paid = dec_str (payment_amount info),
       sp_payment_method = payment_method info,
       sp_payment_status = payment_status info,
       sp_transaction_date = st_transaction_date transaction,
       sp_reference_number = st_reference_number transaction,
       sp_transaction_reference = transaction_reference info \<rparr>"

text \<open>The loop of lines 151 to 196.\<close>

fun add_supplier_payments ::
  "(string \<Rightarrow> exn + json) \<Rightarrow> database \<Rightarrow> (stock_transaction \<times> supplier) list
   \<Rightarrow> supplier_payment_item list \<times> decimal
   \<Rightarrow> exn + supplier_payment_item list \<times> decimal" where
  "add_supplier_payments json_loads db [] acc = Inr acc"
| "add_supplier_payments json_loads db ((transaction, supplier) # rest) (items, running_total) =
     bind_exn (extract_payment_info json_loads (st_notes transaction)) (\<lambda>info.
       if dec_gt0 (payment_amount info) then
         bind_exn (product_names db transaction (products_info info)) (\<lambda>names.
           add_supplier_payments json_loads db rest
             (items @ [supplier_payment_item transaction supplier info names],
              dec_add running_total (payment_amount info)))
       else add_supplier_payments json_loads db rest (items, running_total))"

definition get_supplier_payments ::
  "(string \<Rightarrow> exn + json) \<Rightarrow> database \<Rightarrow> exn + supplier_payments_result" where
  "get_supplier_payments json_loads db =
     reraise ''Error fetching supplier payments: ''
       (bind_exn (add_supplier_payments json_loads db (purchases_query db) ([], dec_zero))
          (\<lambda>(items, running_total).
          Inr \<lparr> supplier_payments = items,
                sp_total_paid = dec_str running_total,
                sp_count = length items \<rparr>))"

subsection \<open>\<open>get_supplier_receipts\<close>\<close>

record supplier_receipt_item =
  si_return_id :: int
  si_return_number :: string
  si_supplier_id :: int
  si_supplier_name :: string
  si_business_name :: string
  si_product_name :: string
  si_refund_amount :: string
  si_return_type :: string
  si_return_date :: datetime
  si_quantity_returned :: int
  si_status :: string

record supplier_receipts_result =
  supplier_receipts :: "supplier_receipt_item list"
  sr_total_received :: string
  sr_count :: nat

text \<open>The query of lines 214 to 219, on the rows of the supplier-returns table.\<close>

definition receipts_query ::
  "database \<Rightarrow> supplier_return list \<Rightarrow> (supplier_return \<times> supplier) list" where
  "receipts_query db rows =
     order_by_desc (\<lambda>(r, s). sr_return_date r)
       (filter (\<lambda>(r, s). sql_gt0 (sr_refund_amount r) \<and> sr_status r = ''Completed'')
          (join rows (suppliers db) (\<lambda>r s. sr_supplier_id r = s_id s)))"

definition supplier_receipt_item ::
  "database \<Rightarrow> supplier_return \<Rightarrow> supplier \<Rightarrow> decimal \<Rightarrow> supplier_receipt_item" where
  "supplier_receipt_item db receipt supplier amount =
     (let damaged = query_get dp_id (damaged_products db) (sr_damaged_product_id receipt);
          product = (case damaged of
                       Some d \<Rightarrow> query_get p_id (products db) (dp_product_id d)
                     | None \<Rightarrow> None)
      in \<lparr> si_return_id = sr_id receipt,
            si_return_number = sr_return_number receipt,
            si_supplier_id = s_id supplier,
            si_supplier_name = s_contact_person supplier,
            si_business_name = s_name supplier,
            si_product_name = (case product of Some p \<Rightarrow> p_product_name p
                               | None \<Rightarrow> ''Unknown Product''),
            si_refund_amount = dec_str amount,
            si_return_type = sr_return_type receipt,
            si_return_date = sr_return_date receipt,
            si_quantity_returned = sr_quantity_returned receipt,
            si_status = sr_status receipt \<rparr>)"

fun add_receipts ::
  "database \<Rightarrow> (supplier_return \<times> supplier) list
   \<Rightarrow> supplier_receipt_item list \<times> decimal \<Rightarrow> supplier_receipt_item list \<times> decimal" where
  "add_receipts db [] acc = acc"
| "add_receipts db ((receipt, supplier) # rest) (items, running_total) =
     (let amount = Decimal_or_0 (sr_refund_amount receipt)
      in add_receipts db rest
           (items @ [supplier_receipt_item db receipt supplier amount], dec_add running_total amount))"

text \<open>The body of the \<^verbatim>\<open>try\<close> (lines 211 to 250).\<close>

definition supplier_receipts_try :: "database \<Rightarrow> exn + supplier_receipts_result" where
  "supplier_receipts_try db =
     bind_exn (supplier_returns db) (\<lambda>rows.
       case add_receipts db (receipts_query db rows) ([], dec_zero) of
         (items, running_total) \<Rightarrow>
           Inr \<lparr> supplier_receipts = items,
                 sr_total_received = dec_str running_total,
                 sr_count = length items \<rparr>)"

text \<open>The \<^verbatim>\<open>except Exception\<close> of lines 251 to 257 returns the empty result.\<close>

definition get_supplier_receipts :: "database \<Rightarrow> exn + supplier_receipts_result" where
  "get_supplier_receipts db =
     (case supplier_receipts_try db of
        Inr result \<Rightarrow> Inr result
      | Inl e \<Rightarrow> Inr \<lparr> supplier_receipts = [], sr_total_received = ''0.00'', sr_count = 0 \<rparr>)"

subsection \<open>\<open>get_cashflow_summary\<close>\<close>

record cash_inflow_section =
  ci_customer_payments :: string
  ci_supplier_refunds :: string
  ci_total_inflow :: string

record cash_outflow_section =
  co_customer_refunds :: string
  co_supplier_payments :: string
  co_total_outflow :: string

record 'a breakdown_entry =
  be_amount :: string
  be_count :: nat
  be_transactions :: "'a list"

record customer_transactions_section =
  payments_received :: "customer_payment_item breakdown_entry"
  refunds_given :: "customer_refund_item breakdown_entry"

record supplier_transactions_section =
  payments_made :: "supplier_payment_item breakdown_entry"
  refunds_received :: "supplier_receipt_item breakdown_entry"

record detailed_breakdown_section =
  customer_transactions :: customer_transactions_section
  supplier_transactions :: supplier_transactions_section

record summary_section =
  total_customer_transactions :: nat
  total_supplier_transactions :: nat
  cash_position :: string

record cashflow_summary =
  cash_inflow :: cash_inflow_section
  cash_outflow :: cash_outflow_section
  net_cashflow :: string
  detailed_breakdown :: detailed_breakdown_section
  summary :: summary_section

text \<open>Line 324.\<close>

definition cash_position_of :: "decimal \<Rightarrow> string" where
  "cash_position_of net =
     (if dec_gt0 net then ''Positive'' else if dec_lt0 net then ''Negative'' else ''Neutral'')"

definition get_cashflow_summary ::
  "(string \<Rightarrow> exn + json) \<Rightarrow> database \<Rightarrow> exn + cashflow_summary" where
  "get_cashflow_summary json_loads db =
     reraise ''Error generating cash flow summary: ''
       (bind_exn (get_customer_payments db) (\<lambda>cp.
        bind_exn (get_supplier_receipts db) (\<lambda>sr.
        bind_exn (Decimal_of_str (cp_total_received cp)) (\<lambda>cp_total.
        bind_exn (Decimal_of_str (sr_total_received sr)) (\<lambda>sr_total.
        let total_inflow = dec_add cp_total sr_total in
        bind_exn (get_customer_refunds db) (\<lambda>cr.
        bind_exn (get_supplier_payments json_loads db) (\<lambda>sp.
        bind_exn (Decimal_of_str (cr_total_refunded cr)) (\<lambda>cr_total.
        bind_exn (Decimal_of_str (sp_total_paid sp)) (\<lambda>sp_total.
        let total_outflow = dec_add cr_total sp_total;
            net = dec_sub total_inflow total_outflow in
        bind_exn (format_decimal (PStr (cp_total_received cp))) (\<lambda>cp_text.
        bind_exn (format_decimal (PStr (sr_total_received sr))) (\<lambda>sr_text.
        bind_exn (format_decimal (PDec total_inflow)) (\<lambda>inflow_text.
        bind_exn (format_decimal (PStr (cr_total_refunded cr))) (\<lambda>cr_text.
        bind_exn (format_decimal (PStr (sp_total_paid sp))) (\<lambda>sp_text.
        bind_exn (format_decimal (PDec total_outflow)) (\<lambda>outflow_text.
        bind_exn (format_decimal (PDec net)) (\<lambda>net_text.
          Inr \<lparr> cash_inflow =
                  \<lparr> ci_customer_payments = cp_text, ci_supplier_refunds = sr_text,
                    ci_total_inflow = inflow_text \<rparr>,
                cash_outflow =
                  \<lparr> co_customer_refunds = cr_text, co_supplier_payments = sp_text,
                    co_total_outflow = outflow_text \<rparr>,
                net_cashflow = net_text,
                detailed_breakdown =
                  \<lparr> customer_transactions =
                      \<lparr> payments_received =
                          \<lparr> be_amount = cp_text, be_count = cp_count cp,
                            be_transactions = customer_payments cp \<rparr>,
                        refunds_given =
                          \<lparr> be_amount = cr_text, be_count = cr_count cr,
                            be_transactions = customer_refunds cr \<rparr> \<rparr>,
                    supplier_transactions =
                      \<lparr> payments_made =
                          \<lparr> be_amount = sp_text, be_count = sp_count sp,
                            be_transactions = supplier_payments sp \<rparr>,
                        refunds_received =
                          \<lparr> be_amount = sr_text, be_count = sr_count sr,
                            be_transactions = supplier_receipts sr \<rparr> \<rparr> \<rparr>,
                summary =
                  \<lparr> total_customer_transactions = cp_count cp + cr_count cr,
                    total_supplier_transactions = sp_count sp + sr_count sr,
                    cash_position = cash_position_of net \<rparr> \<rparr>))))))))))))))))"

section \<open>Notions used in the statements and proofs\<close>

text \<open>The sum of a list of amounts, accumulated from \<^verbatim>\<open>Decimal('0')\<close> as the loops do.\<close>

definition dec_sum :: "decimal list \<Rightarrow> decimal" where
  "dec_sum ds = foldl dec_add dec_zero ds"

text \<open>The unrounded amounts of the rows each operation selects, in the order of its output.\<close>

definition payment_amounts :: "database \<Rightarrow> decimal list" where
  "payment_amounts db =
     map (\<lambda>(p, c). Decimal_or_0 (pay_amount_paid p)) (payments_query db)
     @ map (\<lambda>(r, c, p). Decimal_or_0 (pr_exchange_price_difference r)) (adjustments_query db)"


definition receipt_amounts :: "database \<Rightarrow> supplier_return list \<Rightarrow> decimal list" where
  "receipt_amounts db rows =
     map (\<lambda>(r, s). Decimal_or_0 (sr_refund_amount r)) (receipts_query db rows)"




text \<open>Texts without white space and underscores, and the exponent part of \<open>dec_str\<close>.\<close>

definition plain :: "string \<Rightarrow> bool" where
  "plain s = list_all (\<lambda>c. \<not> is_space c \<and> c \<noteq> CHR ''_'') s"

definition exp_text :: "int \<Rightarrow> string" where
  "exp_text k =
     (if k = 0 then []
      else ''E'' @ (if k < 0 then ''-'' else ''+'') @ str_nat (nat \<bar>k\<bar>))"

section \<open>A sample database\<close>

text \<open>
  One customer, one product, one supplier; a payment of 123.45; three exchanges: one
  where the customer pays 5.00 (stored as cancelled), one where the shop owes 5.00
  and the return is cancelled, one where the shop owes 5.00 and the return is
  completed; two purchases, one whose note carries a payment of 250.00 and one whose
  note is free text. The supplier-returns module is absent.
\<close>

definition sample_customer :: customer where
  "sample_customer = \<lparr> c_id = 1, c_contact_person = ''Ann'', c_business_name = ''Ann Ltd'' \<rparr>"

definition sample_product :: product where
  "sample_product = \<lparr> p_id = 7, p_product_name = ''Lamp'' \<rparr>"

definition sample_supplier :: supplier where
  "sample_supplier = \<lparr> s_id = 2, s_contact_person = ''Bob'', s_name = ''Bob Wholesale'' \<rparr>"

definition sample_payment :: payment where
  "sample_payment =
     \<lparr> pay_id = 10, pay_invoice_id = 100, pay_customer_id = 1,
       pay_amount_paid = Some (Decimal False 12345 (- 2)), pay_payment_method = ''cash'',
       pay_payment_status = ''Successful'', pay_payment_date = 1,
       pay_transaction_reference = ''T-10'' \<rparr>"

definition exchange_customer_pays :: product_return where
  "exchange_customer_pays =
     \<lparr> pr_id = 3, pr_return_number = ''R-3'', pr_customer_id = 1, pr_product_id = 7,
       pr_original_invoice_id = 100, pr_return_type = ''exchange'',
       pr_refund_amount = Some (Decimal False 0 (- 2)),
       pr_exchange_price_difference = Some (Decimal False 500 (- 2)),
       pr_status = ''Cancelled'', pr_reason = ''size'', pr_quantity_returned = 1,
       pr_exchange_product_id = None, pr_return_date = 2 \<rparr>"

definition exchange_refund_cancelled :: product_return where
  "exchange_refund_cancelled =
     \<lparr> pr_id = 4, pr_return_number = ''R-4'', pr_customer_id = 1, pr_product_id = 7,
       pr_original_invoice_id = 100, pr_return_type = ''exchange'',
       pr_refund_amount = Some (Decimal False 500 (- 2)),
       pr_exchange_price_difference = Some (Decimal False 0 (- 2)),
       pr_status = ''Cancelled'', pr_reason = ''colour'', pr_quantity_returned = 1,
       pr_exchange_product_id = Some 7, pr_return_date = 3 \<rparr>"

definition exchange_refund_completed :: product_return where
  "exchange_refund_completed =
     \<lparr> pr_id = 5, pr_return_number = ''R-5'', pr_customer_id = 1, pr_product_id = 7,
       pr_original_invoice_id = 100, pr_return_type = ''exchange'',
       pr_refund_amount = Some (Decimal False 500 (- 2)),
       pr_exchange_price_difference = Some (Decimal False 0 (- 2)),
       pr_status = ''Completed'', pr_reason = ''colour'', pr_quantity_returned = 1,
       pr_exchange_product_id = Some 7, pr_return_date = 4 \<rparr>"

definition purchase_paid :: stock_transaction where
  \<open>purchase_paid =
     \<lparr> st_id = 20, st_transaction_type = ''Purchase'', st_supplier_id = 2, st_product_id = 7,
       st_quantity = 5, st_transaction_date = 5, st_reference_number = ''PO-20'',
       st_notes = Some ''{"payment_amount": "250.00", "payment_method": "cash"}'' \<rparr>\<close>

definition purchase_free_text :: stock_transaction where
  "purchase_free_text =
     \<lparr> st_id = 21, st_transaction_type = ''Purchase'', st_supplier_id = 2, st_product_id = 7,
       st_quantity = 1, st_transaction_date = 6, st_reference_number = ''PO-21'',
       st_notes = Some ''paid in cash'' \<rparr>"

definition sample_db :: database where
  "sample_db =
     \<lparr> payments = [sample_payment], customers = [sample_customer],
       products = [sample_product],
       product_returns =
         [exchange_customer_pays, exchange_refund_cancelled, exchange_refund_completed],
       stock_transactions = [purchase_paid, purchase_free_text],
       suppliers = [sample_supplier], damaged_products = [],
       supplier_returns = Inl ImportError \<rparr>"

text \<open>
  What \<^verbatim>\<open>json.loads\<close> returns on the notes used in this theory; a text that is not
  listed is no JSON document (as \<^verbatim>\<open>paid in cash\<close> is not).
\<close>

definition sample_json_loads :: "string \<Rightarrow> exn + json" where
  \<open>sample_json_loads s =
     (if s = ''{"payment_amount": "250.00", "payment_method": "cash"}''
      then Inr (JDict [(''payment_amount'', JStr ''250.00''), (''payment_method'', JStr ''cash'')])
      else if s = ''{"payment_amount": "0.004"}''
      then Inr (JDict [(''payment_amount'', JStr ''0.004'')])
      else if s = ''{"payment_amount": null}''
      then Inr (JDict [(''payment_amount'', JNull)])
      else if s = ''{"payment_amount": "abc"}''
      then Inr (JDict [(''payment_amount'', JStr ''abc'')])
      else if s = ''123'' then Inr (JInt 123)
      else Inl JSONDecodeError)\<close>

section \<open>Decimals and their texts\<close>

lemma lt10_cases: "d < 10 \<Longrightarrow> d = 0 \<or> d = 1 \<or> d = 2 \<or> d = 3 \<or> d = 4 \<or> d = 5 \<or> d = 6 \<or> d = 7 \<or> d = 8 \<or> d = (9::nat)"
  by arith

lemma digit_char_is_digit: "is_digit (digit_char d)"
proof -
  have "d mod 10 < 10" by simp
  from lt10_cases [OF this] show ?thesis
    by (elim disjE) (simp_all add: digit_char_def is_digit_def)
qed

lemma digit_val_digit_char: "digit_val (digit_char d) = d mod 10"
proof -
  have "d mod 10 < 10" by simp
  from lt10_cases [OF this] show ?thesis
    by (elim disjE) (simp_all add: digit_char_def digit_val_def)
qed

lemma is_digit_simps [simp]:
  "\<not> is_digit CHR ''.''" "\<not> is_digit CHR ''E''" "\<not> is_digit CHR ''-''" "\<not> is_digit CHR ''+''"
  "is_digit CHR ''0''"
  by (simp_all add: is_digit_def)

lemma is_digit_plain: "is_digit c \<Longrightarrow> \<not> is_space c \<and> c \<noteq> CHR ''_'' \<and> c \<noteq> CHR ''-'' \<and> c \<noteq> CHR ''+'' \<and> c \<noteq> CHR ''.'' \<and> c \<noteq> CHR ''E'' \<and> c \<noteq> CHR ''e''"
  by (auto simp add: is_digit_def is_space_def)

lemma str_nat_digits: "list_all is_digit (str_nat n)"
proof (induction n rule: str_nat.induct)
  case (1 n)
  show ?case
  proof (cases "n < 10")
    case True
    then show ?thesis by (simp add: str_nat.simps [of n] digit_char_is_digit)
  next
    case False
    with 1 show ?thesis by (simp add: str_nat.simps [of n] digit_char_is_digit)
  qed
qed

lemma str_nat_nonempty: "str_nat n \<noteq> []"
  by (simp add: str_nat.simps [of n])

lemma nat_of_digits_snoc: "nat_of_digits (xs @ [c]) = 10 * nat_of_digits xs + digit_val c"
  by (simp add: nat_of_digits_def)

lemma nat_of_digits_Nil: "nat_of_digits [] = 0"
  by (simp add: nat_of_digits_def)

lemma nat_of_digits_append:
  "nat_of_digits (xs @ ys) = nat_of_digits xs * 10 ^ length ys + nat_of_digits ys"
proof (induction ys rule: rev_induct)
  case Nil
  show ?case by (simp add: nat_of_digits_Nil)
next
  case (snoc y ys)
  have "nat_of_digits (xs @ ys @ [y]) = 10 * nat_of_digits (xs @ ys) + digit_val y"
    using nat_of_digits_snoc [of "xs @ ys" y] by simp
  also have "\<dots> = 10 * (nat_of_digits xs * 10 ^ length ys + nat_of_digits ys) + digit_val y"
    by (simp add: snoc.IH)
  also have "\<dots> = nat_of_digits xs * 10 ^ length (ys @ [y]) + nat_of_digits (ys @ [y])"
    by (simp add: nat_of_digits_snoc algebra_simps)
  finally show ?case by simp
qed

lemma nat_of_digits_zeros: "nat_of_digits (replicate k CHR ''0'') = 0"
  by (induction k) (simp_all add: nat_of_digits_def digit_val_def)

lemma nat_of_digits_zeros_append: "nat_of_digits (replicate k CHR ''0'' @ xs) = nat_of_digits xs"
  by (simp add: nat_of_digits_append nat_of_digits_zeros)

lemma nat_of_digits_str_nat: "nat_of_digits (str_nat n) = n"
proof (induction n rule: str_nat.induct)
  case (1 n)
  show ?case
  proof (cases "n < 10")
    case True
    then show ?thesis
      by (simp add: str_nat.simps [of n] nat_of_digits_def digit_val_digit_char)
  next
    case False
    with 1 show ?thesis
      by (simp add: str_nat.simps [of n] nat_of_digits_snoc digit_val_digit_char)
  qed
qed


lemma plain_append [simp]: "plain (xs @ ys) = (plain xs \<and> plain ys)"
  by (simp add: plain_def)

lemma plain_Cons [simp]: "plain (c # s) = (\<not> is_space c \<and> c \<noteq> CHR ''_'' \<and> plain s)"
  by (simp add: plain_def)

lemma not_space_lits [simp]:
  "\<not> is_space CHR ''-''" "\<not> is_space CHR ''.''" "\<not> is_space CHR ''E''" "\<not> is_space CHR ''+''"
  by (simp_all add: is_space_def)

lemma plain_digits: "list_all is_digit ds \<Longrightarrow> plain ds"
  by (induction ds) (simp_all add: plain_def is_digit_plain)

lemma plain_Nil [simp]: "plain []"
  by (simp add: plain_def)

lemma strip_plain: "plain s \<Longrightarrow> strip s = s"
proof -
  assume p: "plain s"
  have a: "dropWhile is_space s = s"
    using p by (cases s) (simp_all add: plain_def)
  have b: "dropWhile is_space (rev s) = rev s"
    using p by (cases s rule: rev_cases) (simp_all add: plain_def)
  show ?thesis by (simp add: strip_def a b)
qed

lemma filter_plain: "plain s \<Longrightarrow> filter (\<lambda>c. c \<noteq> CHR ''_'') s = s"
  by (induction s) (simp_all add: plain_def)

lemma split_sign_digits:
  "ip \<noteq> [] \<Longrightarrow> list_all is_digit ip \<Longrightarrow>
   split_sign ((if neg then ''-'' else []) @ ip @ rest) = (neg, ip @ rest)"
  by (cases ip) (auto simp add: split_sign_def dest: is_digit_plain)

lemma parse_exp_text: "parse_exp (exp_text k) = Some k"
  by (simp add: parse_exp_def exp_text_def split_sign_def str_nat_nonempty str_nat_digits
      nat_of_digits_str_nat)

lemma plain_exp_text: "plain (exp_text k)"
  by (simp add: exp_text_def plain_digits str_nat_digits)

lemma takeWhile_digits_exp: "takeWhile is_digit (exp_text k) = []"
  by (simp add: exp_text_def)

lemma dropWhile_digits_exp: "dropWhile is_digit (exp_text k) = exp_text k"
  by (simp add: exp_text_def)

lemma hd_exp_text: "exp_text k \<noteq> [] \<Longrightarrow> hd (exp_text k) = CHR ''E''"
  by (simp add: exp_text_def split: if_splits)

lemma Decimal_of_str_nodot:
  assumes "ip \<noteq> []" "list_all is_digit ip"
  shows "Decimal_of_str ((if neg then ''-'' else []) @ ip @ exp_text k)
         = Inr (Decimal neg (nat_of_digits ip) k)"
proof -
  let ?s = "(if neg then ''-'' else []) @ ip @ exp_text k"
  have p: "plain ?s" using assms by (simp add: plain_digits plain_exp_text)
  have tw: "takeWhile is_digit (ip @ exp_text k) = ip"
    using assms by (simp add: takeWhile_append2 list_all_iff takeWhile_digits_exp)
  have dw: "dropWhile is_digit (ip @ exp_text k) = exp_text k"
    using assms by (simp add: dropWhile_append2 list_all_iff dropWhile_digits_exp)
  have nd: "(exp_text k \<noteq> [] \<and> hd (exp_text k) = CHR ''.'') = False"
    using hd_exp_text [of k] by auto
  show ?thesis
    unfolding Decimal_of_str_def strip_plain [OF p] filter_plain [OF p]
      split_sign_digits [OF assms]
    using assms(1) by (simp add: Let_def tw dw nd parse_exp_text)
qed

lemma Decimal_of_str_dot:
  assumes "ip \<noteq> []" "list_all is_digit ip" "list_all is_digit fp"
  shows "Decimal_of_str ((if neg then ''-'' else []) @ ip @ CHR ''.'' # fp @ exp_text k)
         = Inr (Decimal neg (nat_of_digits (ip @ fp)) (k - int (length fp)))"
proof -
  let ?rest = "CHR ''.'' # fp @ exp_text k"
  let ?s = "(if neg then ''-'' else []) @ ip @ ?rest"
  have p: "plain ?s" using assms by (simp add: plain_digits plain_exp_text)
  have tw: "takeWhile is_digit (ip @ ?rest) = ip"
    using assms by (simp add: takeWhile_append2 list_all_iff)
  have dw: "dropWhile is_digit (ip @ ?rest) = ?rest"
    using assms by (simp add: dropWhile_append2 list_all_iff)
  have tw2: "takeWhile is_digit (fp @ exp_text k) = fp"
    using assms by (simp add: takeWhile_append2 list_all_iff takeWhile_digits_exp)
  have dw2: "dropWhile is_digit (fp @ exp_text k) = exp_text k"
    using assms by (simp add: dropWhile_append2 list_all_iff dropWhile_digits_exp)
  show ?thesis
    unfolding Decimal_of_str_def strip_plain [OF p] filter_plain [OF p]
      split_sign_digits [OF assms(1,2)]
    using assms(1) by (simp add: Let_def tw dw tw2 dw2 parse_exp_text)
qed


lemma exp_text_0 [simp]: "exp_text 0 = []"
  by (simp add: exp_text_def)

lemma nat_of_digits_Cons0: "nat_of_digits (CHR ''0'' # xs) = nat_of_digits xs"
  using nat_of_digits_zeros_append [of 1 xs] by simp

lemma list_all_digit_zeros: "list_all is_digit (replicate k CHR ''0'')"
  by (induction k) simp_all

lemma list_all_take_drop:
  "list_all P xs \<Longrightarrow> list_all P (take k xs) \<and> list_all P (drop k xs)"
  by (auto simp add: list_all_iff dest: in_set_takeD in_set_dropD)

lemma dec_str_canon:
  "dec_str (Decimal s c e) =
     (let ds = str_nat c; n = int (length ds); ld = e + n;
          dp = (if e \<le> 0 \<and> - 6 < ld then ld else 1)
      in (if s then ''-'' else []) @
         (if dp \<le> 0 then ''0'' @ CHR ''.'' # (replicate (nat (- dp)) CHR ''0'' @ ds) @ exp_text (ld - dp)
          else if n \<le> dp then (ds @ replicate (nat (dp - n)) CHR ''0'') @ exp_text (ld - dp)
          else take (nat dp) ds @ CHR ''.'' # drop (nat dp) ds @ exp_text (ld - dp)))"
  by (simp add: dec_str_def Let_def exp_text_def)

lemma Decimal_of_str_dec_str: "Decimal_of_str (dec_str d) = Inr d"
proof -
  obtain s c e where d: "d = Decimal s c e" by (cases d)
  let ?ds = "str_nat c"
  let ?n = "int (length ?ds)"
  let ?ld = "e + ?n"
  let ?dp = "if e \<le> 0 \<and> - 6 < ?ld then ?ld else 1"
  have dig: "list_all is_digit ?ds" by (rule str_nat_digits)
  have ne: "?ds \<noteq> []" by (rule str_nat_nonempty)
  then have n1: "1 \<le> ?n" by (cases ?ds) simp_all
  consider (A) "?dp \<le> 0" | (B) "0 < ?dp" "?n \<le> ?dp" | (C) "0 < ?dp" "?dp < ?n"
    by linarith
  then show ?thesis
  proof cases
    case A
    then have e: "?dp = ?ld" "?ld \<le> 0" by (auto split: if_splits)
    let ?fp = "replicate (nat (- ?ld)) CHR ''0'' @ ?ds"
    have str: "dec_str d = (if s then ''-'' else []) @ ''0'' @ CHR ''.'' # ?fp @ exp_text 0"
      unfolding d dec_str_canon using A e by (simp add: Let_def)
    have "Decimal_of_str (dec_str d)
          = Inr (Decimal s (nat_of_digits (''0'' @ ?fp)) (0 - int (length ?fp)))"
      unfolding str by (rule Decimal_of_str_dot) (simp_all add: dig list_all_digit_zeros)
    also have "nat_of_digits (''0'' @ ?fp) = c"
      by (simp add: nat_of_digits_Cons0 nat_of_digits_zeros_append nat_of_digits_str_nat)
    also have "0 - int (length ?fp) = e"
      using e by simp
    finally show ?thesis by (simp add: d)
  next
    case B
    have eq: "?n = ?dp" using B n1 by (auto split: if_splits)
    have str: "dec_str d = (if s then ''-'' else []) @ ?ds @ exp_text (?ld - ?dp)"
      unfolding d dec_str_canon using B eq by (simp add: Let_def)
    have "Decimal_of_str (dec_str d) = Inr (Decimal s (nat_of_digits ?ds) (?ld - ?dp))"
      unfolding str by (rule Decimal_of_str_nodot) (simp_all add: dig ne)
    also have "?ld - ?dp = e" using eq by simp
    finally show ?thesis by (simp add: d nat_of_digits_str_nat)
  next
    case C
    let ?ip = "take (nat ?dp) ?ds"
    let ?fp = "drop (nat ?dp) ?ds"
    have str: "dec_str d = (if s then ''-'' else []) @ ?ip @ CHR ''.'' # ?fp @ exp_text (?ld - ?dp)"
      unfolding d dec_str_canon using C by (simp add: Let_def)
    have ipne: "?ip \<noteq> []" using C ne by simp
    have "Decimal_of_str (dec_str d)
          = Inr (Decimal s (nat_of_digits (?ip @ ?fp)) ((?ld - ?dp) - int (length ?fp)))"
      unfolding str
      by (rule Decimal_of_str_dot) (use ipne list_all_take_drop [OF dig] in simp_all)
    also have "nat_of_digits (?ip @ ?fp) = c"
      by (simp add: nat_of_digits_str_nat)
    also have "(?ld - ?dp) - int (length ?fp) = e"
      using C by simp
    finally show ?thesis by (simp add: d)
  qed
qed

lemma rescale_sel [simp]: "dsign (rescale d e) = dsign d" "dexp (rescale d e) = e"
  by (simp_all add: rescale_def Let_def)

lemma rescale_idem: "rescale (rescale d e) e = rescale d e"
  by (simp add: rescale_def Let_def)

lemma format_f2_canon:
  "format_f 2 d =
     (let ds = str_nat (dcoeff (rescale d (- 2))); n = length ds
      in (if dsign d then ''-'' else []) @
         (if n < 2 then ''0'' @ CHR ''.'' # (replicate (2 - n) CHR ''0'' @ ds) @ exp_text 0
          else if n = 2 then ''0'' @ CHR ''.'' # ds @ exp_text 0
          else take (n - 2) ds @ CHR ''.'' # drop (n - 2) ds @ exp_text 0))"
proof -
  have ne: "str_nat (dcoeff (rescale d (- 2))) \<noteq> []" by (rule str_nat_nonempty)
  show ?thesis
    using ne by (auto simp add: format_f_def Let_def nat_diff_distrib)
qed

lemma Decimal_of_str_format_f2: "Decimal_of_str (format_f 2 d) = Inr (rescale d (- 2))"
proof -
  let ?c = "dcoeff (rescale d (- 2))"
  let ?ds = "str_nat ?c"
  let ?n = "length ?ds"
  have dig: "list_all is_digit ?ds" by (rule str_nat_digits)
  have ne: "?ds \<noteq> []" by (rule str_nat_nonempty)
  then have n1: "1 \<le> ?n" by (cases ?ds) simp_all
  have res: "rescale d (- 2) = Decimal (dsign d) ?c (- 2)"
    by (cases "rescale d (- 2)") (use rescale_sel [of d "- 2"] in auto)
  consider (A) "?n < 2" | (B) "?n = 2" | (C) "2 < ?n" by linarith
  then show ?thesis
  proof cases
    case A
    let ?fp = "replicate (2 - ?n) CHR ''0'' @ ?ds"
    have str: "format_f 2 d = (if dsign d then ''-'' else []) @ ''0'' @ CHR ''.'' # ?fp @ exp_text 0"
      unfolding format_f2_canon using A by (simp add: Let_def)
    have "Decimal_of_str (format_f 2 d)
          = Inr (Decimal (dsign d) (nat_of_digits (''0'' @ ?fp)) (0 - int (length ?fp)))"
      unfolding str by (rule Decimal_of_str_dot) (simp_all add: dig list_all_digit_zeros)
    also have "nat_of_digits (''0'' @ ?fp) = ?c"
      by (simp add: nat_of_digits_Cons0 nat_of_digits_zeros_append nat_of_digits_str_nat)
    also have "0 - int (length ?fp) = - 2"
      using A n1 by simp
    finally show ?thesis using res by simp
  next
    case B
    have str: "format_f 2 d = (if dsign d then ''-'' else []) @ ''0'' @ CHR ''.'' # ?ds @ exp_text 0"
      unfolding format_f2_canon using B by (simp add: Let_def)
    have "Decimal_of_str (format_f 2 d)
          = Inr (Decimal (dsign d) (nat_of_digits (''0'' @ ?ds)) (0 - int (length ?ds)))"
      unfolding str by (rule Decimal_of_str_dot) (simp_all add: dig)
    also have "nat_of_digits (''0'' @ ?ds) = ?c"
      by (simp add: nat_of_digits_Cons0 nat_of_digits_str_nat)
    also have "0 - int (length ?ds) = - 2"
      using B by simp
    finally show ?thesis using res by simp
  next
    case C
    let ?ip = "take (?n - 2) ?ds"
    let ?fp = "drop (?n - 2) ?ds"
    have str: "format_f 2 d = (if dsign d then ''-'' else []) @ ?ip @ CHR ''.'' # ?fp @ exp_text 0"
      unfolding format_f2_canon using C by (simp add: Let_def)
    have ipne: "?ip \<noteq> []" using C ne by simp
    have "Decimal_of_str (format_f 2 d)
          = Inr (Decimal (dsign d) (nat_of_digits (?ip @ ?fp)) (0 - int (length ?fp)))"
      unfolding str
      by (rule Decimal_of_str_dot) (use ipne list_all_take_drop [OF dig] in simp_all)
    also have "nat_of_digits (?ip @ ?fp) = ?c"
      by (simp add: nat_of_digits_str_nat)
    also have "0 - int (length ?fp) = - 2"
      using C by simp
    finally show ?thesis using res by simp
  qed
qed

lemma format_f_rescale: "format_f p (rescale d (- int p)) = format_f p d"
  by (simp add: format_f_def rescale_idem)

lemma format_decimal_PDec: "format_decimal (PDec d) = Inr (format_f 2 d)"
  by (simp add: format_decimal_def py_str_def Decimal_of_str_dec_str bind_exn_def)

lemma format_decimal_formatted:
  "format_decimal (PStr (format_f 2 d)) = Inr (format_f 2 d)"
  using format_f_rescale [of 2 d]
  by (simp add: format_decimal_def py_str_def Decimal_of_str_format_f2 bind_exn_def)

section \<open>Integers as text\<close>




section \<open>The value of a decimal\<close>

lemma power_int_10_pos: "0 < power_int (10::rat) e"
  by (simp add: power_int_def)

lemma power_int_10_not_neg: "\<not> power_int (10::rat) e < 0"
  using power_int_10_pos [of e] by (simp add: not_less less_imp_le)

lemma power_int_10_nz: "power_int (10::rat) e \<noteq> 0"
  using power_int_10_pos [of e] by simp

lemma power_int_10_split:
  "e \<le> d \<Longrightarrow> power_int (10::rat) d = 10 ^ nat (d - e) * power_int 10 e"
proof -
  assume le: "e \<le> d"
  define k where "k = nat (d - e)"
  have d: "d = int k + e" using le by (simp add: k_def)
  have "power_int (10::rat) (int k + e) = power_int 10 (int k) * power_int 10 e"
    by (rule power_int_add) simp
  then show ?thesis
    unfolding d by simp
qed

lemma dec_val_signed:
  "e \<le> dexp d \<Longrightarrow> dec_val d = of_int (dec_signed d e) * power_int 10 e"
  using power_int_10_split [of e "dexp d"]
  by (simp add: dec_val_def dec_signed_def)

lemma dec_val_Decimal_abs:
  "dec_val (Decimal (if v = 0 then b else v < 0) (nat \<bar>v\<bar>) e) = of_int v * power_int 10 e"
  by (simp add: dec_val_def)

lemma dec_val_add: "dec_val (dec_add a b) = dec_val a + dec_val b"
proof -
  let ?e = "min (dexp a) (dexp b)"
  have a: "dec_val a = of_int (dec_signed a ?e) * power_int 10 ?e"
    by (rule dec_val_signed) simp
  have b: "dec_val b = of_int (dec_signed b ?e) * power_int 10 ?e"
    by (rule dec_val_signed) simp
  have "dec_val (dec_add a b)
        = of_int (dec_signed a ?e + dec_signed b ?e) * power_int 10 ?e"
    unfolding dec_add_def Let_def by (rule dec_val_Decimal_abs)
  also have "\<dots> = dec_val a + dec_val b"
    unfolding a b by (simp add: distrib_right)
  finally show ?thesis .
qed

lemma dec_val_neg: "dec_val (dec_neg d) = - dec_val d"
  by (simp add: dec_val_def dec_neg_def)

lemma dec_val_sub: "dec_val (dec_sub a b) = dec_val a - dec_val b"
  by (simp add: dec_sub_def dec_val_add dec_val_neg)




lemma dec_gt0_val: "dec_gt0 d \<longleftrightarrow> 0 < dec_val d"
  by (cases "dsign d")
     (simp_all add: dec_gt0_def dec_val_def zero_less_mult_iff mult_less_0_iff
        power_int_10_pos power_int_10_not_neg)

lemma dec_lt0_val: "dec_lt0 d \<longleftrightarrow> dec_val d < 0"
  by (cases "dsign d")
     (simp_all add: dec_lt0_def dec_val_def zero_less_mult_iff mult_less_0_iff
        power_int_10_pos power_int_10_not_neg)

lemma dec_eq0_val: "dec_eq0 d \<longleftrightarrow> dec_val d = 0"
  by (simp add: dec_eq0_def dec_val_def power_int_10_nz)

lemma dec_val_rescale_exact: "e \<le> dexp d \<Longrightarrow> dec_val (rescale d e) = dec_val d"
  using power_int_10_split [of e "dexp d"]
  by (simp add: rescale_def dec_val_def)

lemma dec_val_Decimal_or_0: "dec_val (Decimal_or_0 (Some d)) = dec_val d"
  by (simp add: Decimal_or_0_def dec_val_def)

section \<open>The loops and the queries\<close>

lemma add_regular_payments_eq:
  "add_regular_payments rows (items, t) =
     Inr (items @ map (\<lambda>(p, c). regular_payment_item p c
                        (format_f 2 (Decimal_or_0 (pay_amount_paid p)))) rows,
          foldl dec_add t (map (\<lambda>(p, c). Decimal_or_0 (pay_amount_paid p)) rows))"
  proof (induction rows arbitrary: items t)
  case Nil
  show ?case by simp
next
  case (Cons a rows)
  obtain p c where a: "a = (p, c)" by (cases a) auto
  show ?case
    unfolding a by (simp add: Cons.IH format_decimal_PDec bind_exn_def Let_def split_def)
qed

lemma add_adjustment_payments_eq:
  "add_adjustment_payments db rows (items, t) =
     Inr (items @ map (\<lambda>(r, c, p). adjustment_payment_item db r c p
                        (format_f 2 (Decimal_or_0 (pr_exchange_price_difference r)))) rows,
          foldl dec_add t
            (map (\<lambda>(r, c, p). Decimal_or_0 (pr_exchange_price_difference r)) rows))"
  proof (induction rows arbitrary: items t)
  case Nil
  show ?case by simp
next
  case (Cons a rows)
  obtain r c p where a: "a = (r, c, p)" by (cases a) auto
  show ?case
    unfolding a by (simp add: Cons.IH format_decimal_PDec bind_exn_def Let_def split_def)
qed


lemma add_receipts_eq:
  "add_receipts db rows (items, t) =
     (items @ map (\<lambda>(r, s). supplier_receipt_item db r s (Decimal_or_0 (sr_refund_amount r))) rows,
      foldl dec_add t (map (\<lambda>(r, s). Decimal_or_0 (sr_refund_amount r)) rows))"
  proof (induction rows arbitrary: items t)
  case Nil
  show ?case by simp
next
  case (Cons a rows)
  obtain r s where a: "a = (r, s)" by (cases a) auto
  show ?case
    unfolding a by (simp add: Cons.IH Let_def split_def)
qed

lemma get_customer_payments_eq:
  "get_customer_payments db =
     Inr \<lparr> customer_payments =
             map (\<lambda>(p, c). regular_payment_item p c
                    (format_f 2 (Decimal_or_0 (pay_amount_paid p)))) (payments_query db)
             @ map (\<lambda>(r, c, p). adjustment_payment_item db r c p
                    (format_f 2 (Decimal_or_0 (pr_exchange_price_difference r))))
                 (adjustments_query db),
           cp_total_received = format_f 2 (dec_sum (payment_amounts db)),
           cp_count = length (payments_query db) + length (adjustments_query db) \<rparr>"
  by (simp add: get_customer_payments_def add_regular_payments_eq add_adjustment_payments_eq
      bind_exn_def reraise_def format_decimal_PDec dec_sum_def payment_amounts_def)


lemma get_supplier_receipts_eq:
  "get_supplier_receipts db =
     (case supplier_returns db of
        Inl e \<Rightarrow> Inr \<lparr> supplier_receipts = [], sr_total_received = ''0.00'', sr_count = 0 \<rparr>
      | Inr rows \<Rightarrow>
          Inr \<lparr> supplier_receipts =
                  map (\<lambda>(r, s). supplier_receipt_item db r s
                         (Decimal_or_0 (sr_refund_amount r))) (receipts_query db rows),
                sr_total_received = dec_str (dec_sum (receipt_amounts db rows)),
                sr_count = length (receipts_query db rows) \<rparr>)"
  by (simp add: get_supplier_receipts_def supplier_receipts_try_def add_receipts_eq
      bind_exn_def dec_sum_def receipt_amounts_def split: sum.split)



lemma length_order_by_desc [simp]: "length (order_by_desc key xs) = length xs"
  by (simp add: order_by_desc_def)

lemma sorted_order_by_desc:
  "sorted_wrt (\<lambda>a b. b \<le> a) (map key (order_by_desc key xs))"
proof -
  have "sorted (map (\<lambda>x. - key x) (order_by_desc key xs))"
    by (simp add: order_by_desc_def)
  then have "sorted_wrt (\<lambda>a b. - a \<le> - b) (map key (order_by_desc key xs))"
    by (simp add: sorted_wrt_map)
  then show ?thesis by simp
qed







section \<open>The sample database, evaluated\<close>

lemma sample_payments_query:
  "payments_query sample_db = [(sample_payment, sample_customer)]"
  by (simp add: payments_query_def join_def order_by_desc_def sample_db_def sample_payment_def
      sample_customer_def sql_gt0_def dec_gt0_def)

lemma sample_adjustments_query:
  "adjustments_query sample_db = [(exchange_customer_pays, sample_customer, sample_product)]"
  by (simp add: adjustments_query_def join_def order_by_desc_def sample_db_def
      exchange_customer_pays_def exchange_refund_cancelled_def exchange_refund_completed_def
      sample_customer_def sample_product_def sql_gt0_def sql_eq0_def dec_gt0_def dec_eq0_def)


lemma format_f_12345: "format_f 2 (Decimal False 12345 (- 2)) = ''123.45''"
  by (simp add: format_f_def rescale_def Let_def str_nat.simps digit_char_def)



section \<open>Joins under changes of the left table\<close>

lemma join_Cons: "join (x # xs) ys on = map (\<lambda>y. (x, y)) (filter (on x) ys) @ join xs ys on"
  by (simp add: join_def)

lemma join_Nil [simp]: "join [] ys on = []"
  by (simp add: join_def)


lemma join_filter_left:
  "join (filter q xs) ys on = filter (\<lambda>(x, y). q x) (join xs ys on)"
  by (induction xs) (simp_all add: join_Cons filter_map comp_def)






section \<open>The stored status of a return and the adjustment query\<close>






section \<open>Rows of returns in the outputs\<close>










section \<open>The claims\<close>





text \<open>
  Claim C4. \<open>get_supplier_receipts\<close> never raises, and when the supplier-returns
  subsystem raises on the import or the query it returns the empty result with the
  total \<^verbatim>\<open>"0.00"\<close>.
\<close>

theorem supplier_receipts_never_raises:
  "(\<exists>r. get_supplier_receipts db = Inr r)
   \<and> (supplier_returns db = Inl e \<longrightarrow>
        get_supplier_receipts db =
          Inr \<lparr> supplier_receipts = [], sr_total_received = ''0.00'', sr_count = 0 \<rparr>)"
  by (cases "supplier_returns db") (simp_all add: get_supplier_receipts_eq)

theorem supplier_receipts_never_raises_witness:
  "supplier_returns sample_db = Inl ImportError
   \<and> get_supplier_receipts sample_db =
       Inr \<lparr> supplier_receipts = [], sr_total_received = ''0.00'', sr_count = 0 \<rparr>"
proof -
  have h: "supplier_returns sample_db = Inl ImportError"
    by (simp add: sample_db_def)
  show ?thesis
    using h supplier_receipts_never_raises [of sample_db ImportError] by simp
qed

text \<open>
  Claim C6, as the code has it. The list returned by \<open>get_customer_payments\<close> is the
  regular payments, most recent first, followed by the adjustment payments, most
  recent first; the two parts are appended, not merged by date.
\<close>

theorem customer_payments_two_sorted_parts:
  "\<exists>r regular adjustments.
      get_customer_payments db = Inr r
      \<and> customer_payments r = regular @ adjustments
      \<and> list_all (\<lambda>i. cp_payment_type i = ''regular_payment'') regular
      \<and> list_all (\<lambda>i. cp_payment_type i = ''adjustment_payment'') adjustments
      \<and> sorted_wrt (\<lambda>a b. b \<le> a) (map cp_payment_date regular)
      \<and> sorted_wrt (\<lambda>a b. b \<le> a) (map cp_payment_date adjustments)"
proof -
  let ?regular = "map (\<lambda>(p, c). regular_payment_item p c
                    (format_f 2 (Decimal_or_0 (pay_amount_paid p)))) (payments_query db)"
  let ?adjustments = "map (\<lambda>(r, c, p). adjustment_payment_item db r c p
                    (format_f 2 (Decimal_or_0 (pr_exchange_price_difference r))))
                 (adjustments_query db)"
  have d1: "map cp_payment_date ?regular = map (\<lambda>(p, c). pay_payment_date p) (payments_query db)"
    by (simp add: split_def comp_def regular_payment_item_def)
  have d2: "map cp_payment_date ?adjustments
            = map (\<lambda>(r, c, p). pr_return_date r) (adjustments_query db)"
    by (simp add: split_def comp_def adjustment_payment_item_def)
  have "sorted_wrt (\<lambda>a b. b \<le> a) (map (\<lambda>(p, c). pay_payment_date p) (payments_query db))"
    unfolding payments_query_def by (rule sorted_order_by_desc)
  then have s1: "sorted_wrt (\<lambda>a b. b \<le> a) (map cp_payment_date ?regular)"
    by (simp only: d1)
  have "sorted_wrt (\<lambda>a b. b \<le> a)
          (map (\<lambda>(r, c, p). pr_return_date r) (adjustments_query db))"
    unfolding adjustments_query_def by (rule sorted_order_by_desc)
  then have s2: "sorted_wrt (\<lambda>a b. b \<le> a) (map cp_payment_date ?adjustments)"
    by (simp only: d2)
  have t1: "list_all (\<lambda>i. cp_payment_type i = ''regular_payment'') ?regular"
    by (simp add: list_all_iff split_def regular_payment_item_def)
  have t2: "list_all (\<lambda>i. cp_payment_type i = ''adjustment_payment'') ?adjustments"
    by (simp add: list_all_iff split_def adjustment_payment_item_def)
  show ?thesis
    using get_customer_payments_eq [of db] s1 s2 t1 t2
    by (intro exI [of _ "\<lparr> customer_payments = ?regular @ ?adjustments,
           cp_total_received = format_f 2 (dec_sum (payment_amounts db)),
           cp_count = length (payments_query db) + length (adjustments_query db) \<rparr>"]
          exI [of _ ?regular] exI [of _ ?adjustments]) simp
qed

text \<open>
  Claim C6 as stated fails on the sample database: the payment of date 1 is listed
  before the adjustment of date 2, so the list is not in descending order of date.
\<close>

theorem customer_payments_not_sorted_counterexample:
  "(case get_customer_payments sample_db of
      Inl e \<Rightarrow> []
    | Inr r \<Rightarrow> map (\<lambda>i. (cp_payment_type i, cp_payment_date i)) (customer_payments r))
   = [(''regular_payment'', 1), (''adjustment_payment'', 2)]"
  by (simp add: get_customer_payments_eq sample_payments_query sample_adjustments_query
      regular_payment_item_def adjustment_payment_item_def sample_payment_def
      exchange_customer_pays_def)


text \<open>
  Claim C9. The two-decimal formatter is idempotent: formatting a value and then
  formatting the resulting text again gives the text of the first formatting. This
  holds for every argument \<open>v\<close> of \<open>format_decimal\<close>, a decimal or a text (for a text
  that is no number both sides raise the same exception), and on a decimal \<open>x\<close> the
  formatter never raises: it returns \<open>x\<close> rounded to two places.
\<close>

theorem format_decimal_idempotent:
  "bind_exn (format_decimal v) (\<lambda>s. format_decimal (PStr s)) = format_decimal v
   \<and> format_decimal (PDec x) = Inr (format_f 2 x)"
proof
  show "bind_exn (format_decimal v) (\<lambda>s. format_decimal (PStr s)) = format_decimal v"
  proof (cases "Decimal_of_str (py_str v)")
    case (Inl e)
    then show ?thesis by (simp add: format_decimal_def bind_exn_def)
  next
    case (Inr d)
    then have "format_decimal v = Inr (format_f 2 d)"
      by (simp add: format_decimal_def bind_exn_def)
    then show ?thesis
      by (simp add: bind_exn_def format_decimal_formatted)
  qed
next
  show "format_decimal (PDec x) = Inr (format_f 2 x)"
    by (rule format_decimal_PDec)
qed




end
